theory Spec2Isabelle
  imports Main "HOL-Library.Sublist"
begin

section \<open>Python strings\<close>

text \<open>
  A Python \<open>str\<close> is a sequence of Unicode code points. It is modelled as a list of
  integers, one per code point, so that \<open>len\<close>, slicing and \<open>replace\<close> count what Python
  counts. ASCII literals of the source are written \<open>u ''...''\<close>; the non-ASCII characters
  of the source appear by their code point: multiplication sign 215, division sign 247,
  square root 8730, en dash 8211, em dash 8212, integral sign 8747.
\<close>

type_synonym ustr = "int list"

definition u :: "string \<Rightarrow> ustr" where
  "u s = map of_char s"

definition nl :: ustr where
  "nl = [10]"

text \<open>
  \<open>str.replace(old, new)\<close>: the non-overlapping occurrences of \<open>old\<close> are replaced from
  left to right. With an empty \<open>old\<close> Python puts \<open>new\<close> before every character and at
  the end.
\<close>

function replace :: "ustr \<Rightarrow> ustr \<Rightarrow> ustr \<Rightarrow> ustr" where
  "replace old new s =
     (if old = [] then new @ concat (map (\<lambda>c. c # new) s)
      else if s = [] then []
      else if prefix old s then new @ replace old new (drop (length old) s)
      else hd s # replace old new (tl s))"
  by pat_completeness auto
termination
  by (relation "measure (\<lambda>(old, new, s). length s)") auto

declare replace.simps [simp del]

text \<open>
  \<open>str.isspace\<close> on one code point: the white space table of CPython, which \<open>strip()\<close> and
  \<open>split(None)\<close> use.
\<close>

definition isspace :: "int \<Rightarrow> bool" where
  "isspace c = ((9 \<le> c \<and> c \<le> 13) \<or> (28 \<le> c \<and> c \<le> 32) \<or> c = 133 \<or> c = 160
      \<or> c = 5760 \<or> (8192 \<le> c \<and> c \<le> 8202) \<or> c = 8232 \<or> c = 8233 \<or> c = 8239
      \<or> c = 8287 \<or> c = 12288)"

definition strip :: "ustr \<Rightarrow> ustr" where
  "strip s = rev (dropWhile isspace (rev (dropWhile isspace s)))"

text \<open>\<open>s.startswith((p1, ..., pn))\<close> with a tuple of prefixes.\<close>

definition startswith_any :: "ustr list \<Rightarrow> ustr \<Rightarrow> bool" where
  "startswith_any ps s = list_ex (\<lambda>p. prefix p s) ps"

text \<open>
  \<open>text.split(None, 1)\<close>: leading white space is skipped, the first item runs to the next
  white space, and the rest of the string after further white space, when there is any,
  is the second item (its trailing white space is kept).
\<close>

definition split_ws1 :: "ustr \<Rightarrow> ustr list" where
  "split_ws1 s =
     (let a = dropWhile isspace s in
      if a = [] then []
      else (let w = takeWhile (\<lambda>c. \<not> isspace c) a;
                r = dropWhile isspace (dropWhile (\<lambda>c. \<not> isspace c) a)
            in if r = [] then [w] else [w, r]))"

section \<open>The normalizer\<close>

text \<open>
  \<open>normalize\<close> of the source (the name is taken in HOL): seven literal substitutions in
  the order of the source, then \<open>strip()\<close>.
\<close>

definition normalize_str :: "ustr \<Rightarrow> ustr" where
  "normalize_str s0 =
     (let s = replace (u ''^'') (u ''**'') s0;
          s = replace [215] (u ''*'') s;
          s = replace [247] (u ''/'') s;
          s = replace (u '':'') (u ''/'') s;
          s = replace [8730] (u ''sqrt'') s;
          s = replace [8211] (u ''-'') (replace [8212] (u ''-'') s)
      in strip s)"

text \<open>The characters that \<open>normalize\<close> substitutes.\<close>

definition targets :: "int set" where
  "targets = {94, 215, 247, 58, 8730, 8212, 8211}"

section \<open>Exceptions and the environment\<close>

text \<open>
  What a call can raise, by the classes that the \<open>except\<close> clauses of the source tell
  apart: an instance of \<open>Exception\<close> that is no \<open>ImportError\<close>, an \<open>ImportError\<close>,
  \<open>KeyboardInterrupt\<close>, and any other \<open>BaseException\<close> outside \<open>Exception\<close>
  (\<open>SystemExit\<close>, \<open>GeneratorExit\<close>). The string is what \<open>str(e)\<close> gives.
\<close>

datatype exn =
    PyException ustr
  | PyImportError ustr
  | KeyboardInterrupt
  | SystemExiting ustr

fun is_Exception :: "exn \<Rightarrow> bool" where
  "is_Exception (PyException m) = True"
| "is_Exception (PyImportError m) = True"
| "is_Exception KeyboardInterrupt = False"
| "is_Exception (SystemExiting m) = False"

fun is_ImportError :: "exn \<Rightarrow> bool" where
  "is_ImportError (PyImportError m) = True"
| "is_ImportError e = False"

fun str_exn :: "exn \<Rightarrow> ustr" where
  "str_exn (PyException m) = m"
| "str_exn (PyImportError m) = m"
| "str_exn KeyboardInterrupt = []"
| "str_exn (SystemExiting m) = m"

text \<open>
  The module is glue around sympy and the Python runtime, which are not part of the
  repository. They are a parameter of the model: \<open>'e\<close> is the type of sympy objects, and
  every call into the library either returns or raises.
  \<^item> \<open>str_lower\<close> is \<open>str.lower()\<close> (the Unicode case table);
  \<^item> \<open>parse_expr\<close> is \<open>parse_expr(s, transformations=transformations)\<close>;
  \<^item> \<open>free_symbols\<close> is the attribute \<open>.free_symbols\<close>, a set; \<open>first_of S\<close> is the element
    \<open>list(S)[0]\<close>, which depends on the iteration order of the set;
  \<^item> \<open>sym_x\<close> is the global \<open>x = symbols('x')\<close>;
  \<^item> \<open>mk_Eq\<close> is \<open>Eq(L, R)\<close>; \<open>equals\<close> is \<open>L.equals(R)\<close>, which answers \<open>True\<close>, \<open>False\<close>
    or \<open>None\<close>; \<open>solveset eq v\<close> is \<open>solveset(eq, v, domain=S.Complexes)\<close>;
  \<^item> \<open>integrate\<close>, \<open>diff\<close>, \<open>doit\<close>, \<open>evalf\<close>, \<open>simplify\<close> are the sympy calls of these names,
    \<open>plot e\<close> is \<open>plot(e, show=True)\<close>, and \<open>str_of\<close> is \<open>str()\<close> of a sympy object, as the
    f-strings call it.
\<close>

record 'e env =
  str_lower :: "ustr \<Rightarrow> ustr"
  parse_expr :: "ustr \<Rightarrow> exn + 'e"
  free_symbols :: "'e \<Rightarrow> exn + 'e set"
  first_of :: "'e set \<Rightarrow> 'e"
  sym_x :: "'e"
  mk_Eq :: "'e \<Rightarrow> 'e \<Rightarrow> exn + 'e"
  equals :: "'e \<Rightarrow> 'e \<Rightarrow> exn + bool option"
  solveset :: "'e \<Rightarrow> 'e \<Rightarrow> exn + 'e"
  integrate :: "'e \<Rightarrow> 'e \<Rightarrow> exn + 'e"
  diff :: "'e \<Rightarrow> 'e \<Rightarrow> exn + 'e"
  doit :: "'e \<Rightarrow> exn + 'e"
  evalf :: "'e \<Rightarrow> exn + 'e"
  simplify :: "'e \<Rightarrow> exn + 'e"
  plot :: "'e \<Rightarrow> exn + unit"
  str_of :: "'e \<Rightarrow> exn + ustr"

text \<open>Sequencing of calls that may raise: the first exception ends the \<open>try\<close> body.\<close>

definition bindE :: "exn + 'a \<Rightarrow> ('a \<Rightarrow> exn + 'b) \<Rightarrow> exn + 'b" where
  "bindE m f = (case m of Inl e \<Rightarrow> Inl e | Inr v \<Rightarrow> f v)"

text \<open>\<open>except Exception as e: return h(e)\<close>: other exceptions pass through.\<close>

definition except_Exception :: "(exn \<Rightarrow> ustr) \<Rightarrow> exn + ustr \<Rightarrow> exn + ustr" where
  "except_Exception h r =
     (case r of Inr v \<Rightarrow> Inr v
      | Inl e \<Rightarrow> if is_Exception e then Inr (h e) else Inl e)"

text \<open>A bare \<open>except: return v\<close> catches every exception.\<close>

definition except_all :: "ustr \<Rightarrow> exn + ustr \<Rightarrow> exn + ustr" where
  "except_all v r = (case r of Inr w \<Rightarrow> Inr w | Inl e \<Rightarrow> Inr v)"

section \<open>The parser adapter and the handlers\<close>

definition try_parse :: "'e env \<Rightarrow> ustr \<Rightarrow> exn + 'e" where
  "try_parse env expr = parse_expr env (normalize_str expr)"

text \<open>
  \<open>left, right = text.split('=', 1)\<close>: with no \<open>=\<close> in the text the list has one item
  and the unpacking raises \<open>ValueError\<close>.
\<close>

definition split_eq :: "ustr \<Rightarrow> exn + (ustr \<times> ustr)" where
  "split_eq text =
     (if 61 \<in> set text
      then Inr (takeWhile (\<lambda>c. c \<noteq> 61) text, tl (dropWhile (\<lambda>c. c \<noteq> 61) text))
      else Inl (PyException (u ''not enough values to unpack (expected 2, got 1)'')))"

definition verdict :: "bool option \<Rightarrow> ustr" where
  "verdict v = (if v = Some True then u ''To'g'ri'' else u ''Noto'g'ri'')"

definition handle_equation_try :: "'e env \<Rightarrow> ustr \<Rightarrow> exn + ustr" where
  "handle_equation_try env text =
     bindE (split_eq text) (\<lambda>(left, right).
     bindE (try_parse env left) (\<lambda>L.
     bindE (try_parse env right) (\<lambda>R.
     bindE (mk_Eq env L R) (\<lambda>eq.
     bindE (free_symbols env L) (\<lambda>fl.
     bindE (free_symbols env R) (\<lambda>fr.
       if fl \<union> fr = {}
       then bindE (equals env L R) (\<lambda>v.
         Inr (u ''Tenglama: '' @ left @ u '' = '' @ right @ nl @ u ''Natija: '' @ verdict v))
       else
         bindE (solveset env eq (first_of env (fl \<union> fr))) (\<lambda>sol.
         bindE (str_of env (first_of env (fl \<union> fr))) (\<lambda>sv.
         bindE (str_of env sol) (\<lambda>ss.
           Inr (u ''Tenglama: '' @ left @ u '' = '' @ right @ nl
                @ u ''O'zgaruvchi: '' @ sv @ nl @ u ''Yechim: '' @ ss))))))))))"

definition handle_equation :: "'e env \<Rightarrow> ustr \<Rightarrow> exn + ustr" where
  "handle_equation env text =
     except_Exception (\<lambda>e. u ''Tenglamada xato: '' @ str_exn e) (handle_equation_try env text)"

text \<open>
  \<open>list(f.free_symbols)[0] if f.free_symbols else x\<close>, in the integral and the
  derivative handler.
\<close>

definition pick_var :: "'e env \<Rightarrow> 'e \<Rightarrow> exn + 'e" where
  "pick_var env f =
     bindE (free_symbols env f) (\<lambda>fs. Inr (if fs \<noteq> {} then first_of env fs else sym_x env))"

text \<open>The value of \<open>t\<close> at the call \<open>try_parse(t)\<close> of \<open>handle_integral\<close>.\<close>

definition integral_arg :: "'e env \<Rightarrow> ustr \<Rightarrow> ustr" where
  "integral_arg env text =
     (let t = strip (replace [8747] [] (replace (u ''integrate'') []
                (replace (u ''integral'') [] (str_lower env text))))
      in if suffix (u ''dx'') t then strip (take (length t - 2) t) else t)"

definition handle_integral_try :: "'e env \<Rightarrow> ustr \<Rightarrow> exn + ustr" where
  "handle_integral_try env text =
     bindE (try_parse env (integral_arg env text)) (\<lambda>f.
     bindE (pick_var env f) (\<lambda>var.
     bindE (integrate env f var) (\<lambda>res.
     bindE (str_of env f) (\<lambda>sf.
     bindE (str_of env var) (\<lambda>sv.
     bindE (str_of env res) (\<lambda>sr.
       Inr ([8747] @ u '' ('' @ sf @ u '') d'' @ sv @ u '' = '' @ sr @ u '' + C'')))))))"

definition handle_integral :: "'e env \<Rightarrow> ustr \<Rightarrow> exn + ustr" where
  "handle_integral env text =
     except_Exception (\<lambda>e. u ''Integral xatosi: '' @ str_exn e) (handle_integral_try env text)"

text \<open>The value of \<open>t\<close> at the call \<open>try_parse(t)\<close> of \<open>handle_derivative\<close>.\<close>

definition derivative_arg :: "'e env \<Rightarrow> ustr \<Rightarrow> ustr" where
  "derivative_arg env text =
     (let t = str_lower env text;
          t = (if prefix (u ''d/d'') t
               then (let parts = split_ws1 text in if length parts > 1 then parts ! 1 else t)
               else t)
      in strip (replace (u ''diff'') [] (replace (u ''derivative'') [] t)))"

definition handle_derivative_try :: "'e env \<Rightarrow> ustr \<Rightarrow> exn + ustr" where
  "handle_derivative_try env text =
     bindE (try_parse env (derivative_arg env text)) (\<lambda>f.
     bindE (pick_var env f) (\<lambda>var.
     bindE (diff env f var) (\<lambda>res.
     bindE (str_of env var) (\<lambda>sv.
     bindE (str_of env f) (\<lambda>sf.
     bindE (str_of env res) (\<lambda>sr.
       Inr (u ''d/d'' @ sv @ u '' ('' @ sf @ u '') = '' @ sr)))))))"

definition handle_derivative :: "'e env \<Rightarrow> ustr \<Rightarrow> exn + ustr" where
  "handle_derivative env text =
     except_Exception (\<lambda>e. u ''Hosila xatosi: '' @ str_exn e) (handle_derivative_try env text)"

definition limit_hint :: ustr where
  "limit_hint = u ''Limit formati xato. To'g'ri format: limit(sin(x)/x, x, 0)''"

definition handle_limit_try :: "'e env \<Rightarrow> ustr \<Rightarrow> exn + ustr" where
  "handle_limit_try env text =
     bindE (try_parse env text) (\<lambda>obj.
     bindE (doit env obj) (\<lambda>res.
     bindE (str_of env res) (\<lambda>sr.
       Inr (u ''Limit natijasi: '' @ sr))))"

definition handle_limit :: "'e env \<Rightarrow> ustr \<Rightarrow> exn + ustr" where
  "handle_limit env text = except_all limit_hint (handle_limit_try env text)"

text \<open>
  \<open>handle_plot\<close> prints a line before it calls \<open>plot\<close>: the result is the list of the
  lines printed and what the handler returns or raises.
\<close>

definition handle_plot_try :: "'e env \<Rightarrow> ustr \<Rightarrow> ustr list \<times> (exn + ustr)" where
  "handle_plot_try env text =
     (case try_parse env (strip (drop 4 text)) of
        Inl e \<Rightarrow> ([], Inl e)
      | Inr sm \<Rightarrow>
          (case str_of env sm of
             Inl e \<Rightarrow> ([], Inl e)
           | Inr ss \<Rightarrow>
               ([u ''Grafik chizilmoqda: '' @ ss @ u '' ...''],
                bindE (plot env sm) (\<lambda>_. Inr (u ''Grafik yakunlandi.'')))))"

definition plot_missing :: ustr where
  "plot_missing =
     u ''XATO: Grafik chizish uchun 'matplotlib' kutubxonasini o'rnating (Pip orqali).''"

definition handle_plot :: "'e env \<Rightarrow> ustr \<Rightarrow> ustr list \<times> (exn + ustr)" where
  "handle_plot env text =
     (case handle_plot_try env text of
        (out, Inr v) \<Rightarrow> (out, Inr v)
      | (out, Inl e) \<Rightarrow>
          if is_ImportError e then (out, Inr plot_missing)
          else if is_Exception e then (out, Inr (u ''Grafik xatosi: '' @ str_exn e))
          else (out, Inl e))"

text \<open>
  The inner \<open>try\<close> of \<open>handle_other\<close>: the line with the numeric value, or nothing when
  \<open>evalf\<close> or the formatting raises anything at all.
\<close>

definition numeric_line :: "'e env \<Rightarrow> 'e \<Rightarrow> ustr" where
  "numeric_line env f =
     (case bindE (evalf env f) (str_of env) of
        Inr sn \<Rightarrow> u ''Taqribiy qiymat: '' @ sn @ nl
      | Inl e \<Rightarrow> [])"

definition handle_other_try :: "'e env \<Rightarrow> ustr \<Rightarrow> exn + ustr" where
  "handle_other_try env expr_text =
     (let s_norm = normalize_str expr_text;
          low = str_lower env s_norm
      in if startswith_any [u ''factor'', u ''expand'', u ''simplify''] low
         then bindE (try_parse env s_norm) (\<lambda>res.
              bindE (str_of env res) (\<lambda>sr. Inr (u ''Natija: '' @ sr)))
         else bindE (try_parse env s_norm) (\<lambda>f.
              bindE (str_of env f) (\<lambda>sf.
              bindE (simplify env f) (\<lambda>g.
              bindE (str_of env g) (\<lambda>sg.
                Inr (u ''Ifoda: '' @ sf @ nl @ numeric_line env f
                     @ u ''Soddalashtirilgan: '' @ sg))))))"

definition handle_other :: "'e env \<Rightarrow> ustr \<Rightarrow> exn + ustr" where
  "handle_other env expr_text =
     except_Exception (\<lambda>e. u ''Xato: '' @ str_exn e) (handle_other_try env expr_text)"

section \<open>The dispatcher and the loop\<close>

datatype route = Exit | Help | Plot | Equation | Integral | Derivative | Limit | Other

text \<open>
  The chain of \<open>if ...: ...; continue\<close> in \<open>main\<close>, on the stripped line \<open>text\<close> and
  \<open>low = text.lower()\<close>: the branch that runs.
\<close>

definition route_of :: "(ustr \<Rightarrow> ustr) \<Rightarrow> ustr \<Rightarrow> route" where
  "route_of lower text =
     (let low = lower text in
      if low \<in> set [u ''exit'', u ''quit''] then Exit
      else if low = u ''help'' then Help
      else if prefix (u ''plot '') low then Plot
      else if 61 \<in> set text
              \<and> \<not> startswith_any [u ''limit'', u ''int'', u ''diff'', u ''plot''] low
           then Equation
      else if sublist (u ''integral'') low \<or> sublist (u ''integrate'') low \<or> 8747 \<in> set text
           then Integral
      else if startswith_any [u ''d/d'', u ''diff'', u ''derivative''] low then Derivative
      else if sublist (u ''limit'') low then Limit
      else Other)"

definition help_text :: ustr where
  "help_text = nl @ u ''--- QO'LLANMA ---'' @ nl
     @ u ''1. Hisoblash: 2+2, 5^2, sqrt(16)'' @ nl
     @ u ''2. Tenglama: x^2 - 9 = 0'' @ nl
     @ u ''3. Integral: integral x^2'' @ nl
     @ u ''4. Hosila: diff(x^3) yoki d/dx sin(x)'' @ nl
     @ u ''5. Limit: limit(sin(x)/x, x, 0)'' @ nl
     @ u ''6. Grafik: plot x^2'' @ nl
     @ u ''7. Chiqish: exit'' @ nl
     @ u ''-----------------'' @ nl"

text \<open>
  One reading of the prompt: \<open>input\<close> returns a line or raises (\<open>KeyboardInterrupt\<close>
  at the prompt, \<open>EOFError\<close> at the end of the input).
\<close>

datatype input_ev = Line ustr | InputRaises exn

datatype flow = Continue | Break

datatype status = Prompting | Terminated | Propagated exn

definition prompt :: ustr where
  "prompt = nl @ u ''>>> ''"

text \<open>\<open>print(handle_x(text)); continue\<close>\<close>

definition emit :: "exn + ustr \<Rightarrow> ustr list \<times> (exn + flow)" where
  "emit r = (case r of Inl e \<Rightarrow> ([], Inl e) | Inr s \<Rightarrow> ([s], Inr Continue))"

text \<open>
  The body of the \<open>try\<close> in the loop of \<open>main\<close>: what it prints, and how it ends (an
  exception, \<open>continue\<close> or the end of the body, or \<open>break\<close>).
\<close>

definition body :: "'e env \<Rightarrow> input_ev \<Rightarrow> ustr list \<times> (exn + flow)" where
  "body env ev =
     (case ev of
        InputRaises e \<Rightarrow> ([prompt], Inl e)
      | Line raw \<Rightarrow>
          (let text = strip raw in
           if text = [] then ([prompt], Inr Continue)
           else (case route_of (str_lower env) text of
                   Exit \<Rightarrow> ([prompt, u ''Dastur tugatildi.''], Inr Break)
                 | Help \<Rightarrow> ([prompt, help_text], Inr Continue)
                 | Plot \<Rightarrow> (case handle_plot env text of
                       (out, r) \<Rightarrow> (prompt # out @ fst (emit r), snd (emit r)))
                 | Equation \<Rightarrow> (prompt # fst (emit (handle_equation env text)),
                                 snd (emit (handle_equation env text)))
                 | Integral \<Rightarrow> (prompt # fst (emit (handle_integral env text)),
                                 snd (emit (handle_integral env text)))
                 | Derivative \<Rightarrow> (prompt # fst (emit (handle_derivative env text)),
                                   snd (emit (handle_derivative env text)))
                 | Limit \<Rightarrow> (prompt # fst (emit (handle_limit env text)),
                              snd (emit (handle_limit env text)))
                 | Other \<Rightarrow> (prompt # fst (emit (handle_other env text)),
                              snd (emit (handle_other env text))))))"

text \<open>
  One iteration of \<open>while True\<close>: the body under \<open>except KeyboardInterrupt\<close> (farewell,
  \<open>break\<close>) and \<open>except Exception as e\<close> (report, next iteration). Any other exception
  leaves \<open>main\<close>.
\<close>

definition iteration :: "'e env \<Rightarrow> input_ev \<Rightarrow> ustr list \<times> status" where
  "iteration env ev =
     (case body env ev of
        (out, Inr Continue) \<Rightarrow> (out, Prompting)
      | (out, Inr Break) \<Rightarrow> (out, Terminated)
      | (out, Inl e) \<Rightarrow>
          if e = KeyboardInterrupt then (out @ [nl @ u ''Dastur to'xtatildi.''], Terminated)
          else if is_Exception e then (out @ [u ''Dastur xatosi: '' @ str_exn e], Prompting)
          else (out, Propagated e))"

text \<open>The loop on the readings of the prompt that have happened so far.\<close>

fun run :: "'e env \<Rightarrow> input_ev list \<Rightarrow> ustr list \<times> status" where
  "run env [] = ([], Prompting)"
| "run env (ev # evs) =
     (case iteration env ev of
        (out, Prompting) \<Rightarrow> (case run env evs of (out', st) \<Rightarrow> (out @ out', st))
      | (out, st) \<Rightarrow> (out, st))"

definition main :: "'e env \<Rightarrow> input_ev list \<Rightarrow> ustr list \<times> status" where
  "main env evs =
     (case run env evs of
        (out, st) \<Rightarrow>
          (u ''=== Pydroid Matematik Yechuvchi ==='' #
           u ''Buyruqni kiritib Enter bosing (Yordam uchun: help)'' # out, st))"

section \<open>The routing rules as the specification lists them\<close>

text \<open>
  The specification gives the classifier as an ordered list of rules of which the first
  that matches wins. \<open>spec_rules\<close> is that list, in the words of the specification.
  The tests for keywords are case-insensitive: they read the lowercase form of the line.
  The specification does not say which form the tests for \<open>=\<close> and for the integral
  sign read, so the form is a parameter: \<open>id\<close> for the line itself, \<open>lower\<close> for its
  lowercase form.
\<close>

definition first_match :: "(('a \<Rightarrow> bool) \<times> 'r) list \<Rightarrow> 'r \<Rightarrow> 'a \<Rightarrow> 'r" where
  "first_match rules dflt x =
     (case find (\<lambda>(p, r). p x) rules of Some (p, r) \<Rightarrow> r | None \<Rightarrow> dflt)"

definition spec_rules ::
  "(ustr \<Rightarrow> ustr) \<Rightarrow> (ustr \<Rightarrow> ustr) \<Rightarrow> ((ustr \<Rightarrow> bool) \<times> route) list" where
  "spec_rules lower form =
     [(\<lambda>t. lower t = u ''exit'' \<or> lower t = u ''quit'', Exit),
      (\<lambda>t. lower t = u ''help'', Help),
      (\<lambda>t. prefix (u ''plot '') (lower t), Plot),
      (\<lambda>t. sublist (u ''='') (form t) \<and> \<not> prefix (u ''limit'') (lower t)
            \<and> \<not> prefix (u ''int'') (lower t) \<and> \<not> prefix (u ''diff'') (lower t)
            \<and> \<not> prefix (u ''plot'') (lower t), Equation),
      (\<lambda>t. sublist (u ''integral'') (lower t) \<or> sublist (u ''integrate'') (lower t)
            \<or> sublist [8747] (form t), Integral),
      (\<lambda>t. prefix (u ''d/d'') (lower t) \<or> prefix (u ''diff'') (lower t)
            \<or> prefix (u ''derivative'') (lower t), Derivative),
      (\<lambda>t. sublist (u ''limit'') (lower t), Limit)]"

definition spec_route :: "(ustr \<Rightarrow> ustr) \<Rightarrow> (ustr \<Rightarrow> ustr) \<Rightarrow> ustr \<Rightarrow> route" where
  "spec_route lower form t = first_match (spec_rules lower form) Other t"

text \<open>
  Lowercasing leaves the line's \<open>=\<close> and integral signs where they are: the lowercase
  form has one exactly when the line has one.
\<close>

definition keeps_symbols :: "(ustr \<Rightarrow> ustr) \<Rightarrow> ustr \<Rightarrow> bool" where
  "keeps_symbols lower t =
     ((61 \<in> set (lower t)) = (61 \<in> set t) \<and> (8747 \<in> set (lower t)) = (8747 \<in> set t))"

section \<open>Predicates of the claims\<close>

text \<open>An ASCII capital letter.\<close>

definition is_ascii_upper :: "int \<Rightarrow> bool" where
  "is_ascii_upper c = (65 \<le> c \<and> c \<le> 90)"

text \<open>
  The reading is a line that, stripped, is not empty and whose lowercase form is \<open>exit\<close>
  or \<open>quit\<close>.
\<close>

definition is_exit_line :: "'e env \<Rightarrow> input_ev \<Rightarrow> bool" where
  "is_exit_line env ev =
     (case ev of
        Line raw \<Rightarrow> strip raw \<noteq> []
          \<and> (str_lower env (strip raw) = u ''exit'' \<or> str_lower env (strip raw) = u ''quit'')
      | InputRaises e \<Rightarrow> False)"

text \<open>
  An exception outside \<open>Exception\<close> (\<open>KeyboardInterrupt\<close>, \<open>SystemExit\<close>) comes out of the
  body of the loop on this reading.
\<close>

definition raises_outside_Exception :: "'e env \<Rightarrow> input_ev \<Rightarrow> bool" where
  "raises_outside_Exception env ev =
     (case snd (body env ev) of Inl e \<Rightarrow> \<not> is_Exception e | Inr fl \<Rightarrow> False)"

section \<open>A small environment for concrete runs\<close>

text \<open>
  \<open>str.lower()\<close> restricted to the ASCII letters, and a backend that knows a handful of
  expressions and represents each sympy object by its printed form. The variants differ
  from it in one call each: a call that is interrupted, a call that raises, a call that
  exits.
\<close>

definition ascii_lower :: "ustr \<Rightarrow> ustr" where
  "ascii_lower s = map (\<lambda>c. if 65 \<le> c \<and> c \<le> 90 then c + 32 else c) s"

definition toy_parse :: "ustr \<Rightarrow> exn + ustr" where
  "toy_parse s =
     (if s \<in> set [u ''2+2'', u ''4'', u ''pi'', u ''x**2'', u ''limit(sin(x)/x, x, 0)'']
      then Inr s else Inl (PyException (u ''invalid syntax'')))"

definition toy_env :: "ustr env" where
  "toy_env = \<lparr>
     str_lower = ascii_lower,
     parse_expr = toy_parse,
     free_symbols = (\<lambda>e. Inr (if 120 \<in> set e then {u ''x''} else {})),
     first_of = (\<lambda>S. u ''x''),
     sym_x = u ''x'',
     mk_Eq = (\<lambda>l r. Inr (u ''Eq('' @ l @ u '', '' @ r @ u '')'')),
     equals = (\<lambda>l r. Inr (if l = r \<or> (l = u ''2+2'' \<and> r = u ''4'') then Some True
                           else if l = u ''pi'' \<or> r = u ''pi'' then None else Some False)),
     solveset = (\<lambda>q v. Inl (PyException (u ''not implemented''))),
     integrate = (\<lambda>f v. if f = u ''x**2'' \<and> v = u ''x'' then Inr (u ''x**3/3'')
                          else Inl (PyException (u ''not implemented''))),
     diff = (\<lambda>f v. if f = u ''x**2'' \<and> v = u ''x'' then Inr (u ''2*x'')
                     else Inl (PyException (u ''not implemented''))),
     doit = (\<lambda>e. Inr (if e = u ''limit(sin(x)/x, x, 0)'' then u ''1'' else e)),
     evalf = (\<lambda>e. if e = u ''2+2'' then Inr (u ''4.00000000000000'')
                    else Inl (PyException (u ''cannot evaluate''))),
     simplify = (\<lambda>e. Inr (if e = u ''2+2'' then u ''4'' else e)),
     plot = (\<lambda>e. Inr ()),
     str_of = (\<lambda>e. Inr e)\<rparr>"



definition failing_equals_env :: "ustr env" where
  "failing_equals_env = toy_env\<lparr>equals := (\<lambda>l r. Inl (PyException (u ''cannot compare'')))\<rparr>"

definition failing_integrate_env :: "ustr env" where
  "failing_integrate_env =
     toy_env\<lparr>integrate := (\<lambda>f v. Inl (PyException (u ''integration failed'')))\<rparr>"

definition exiting_env :: "ustr env" where
  "exiting_env = toy_env\<lparr>parse_expr := (\<lambda>s. Inl (SystemExiting []))\<rparr>"

definition interrupted_doit_env :: "ustr env" where
  "interrupted_doit_env = toy_env\<lparr>doit := (\<lambda>e. Inl KeyboardInterrupt)\<rparr>"

text \<open>
  The same backend with one more constant, and the value of its constants, for the
  equality of two constant expressions.
\<close>

definition toy_value :: "ustr \<Rightarrow> int" where
  "toy_value e = (if e = u ''2+2'' \<or> e = u ''4'' then 4 else if e = u ''5'' then 5 else 0)"

definition toy_meq :: "ustr \<Rightarrow> ustr \<Rightarrow> bool" where
  "toy_meq l r = (toy_value l = toy_value r)"

definition toy_parse5 :: "ustr \<Rightarrow> exn + ustr" where
  "toy_parse5 s =
     (if s \<in> set [u ''2+2'', u ''4'', u ''5'', u ''pi'', u ''x**2'', u ''limit(sin(x)/x, x, 0)'']
      then Inr s else Inl (PyException (u ''invalid syntax'')))"

definition toy5 :: "ustr env" where
  "toy5 = toy_env\<lparr>parse_expr := toy_parse5\<rparr>"

text \<open>A backend whose comparison is always inconclusive.\<close>

definition inconclusive_env :: "ustr env" where
  "inconclusive_env = toy_env\<lparr>equals := (\<lambda>l r. Inr None)\<rparr>"

text \<open>
  Two parsers for the runs that show which text is parsed: one accepts \<open>x**2\<close> and is
  interrupted on every other text, one refuses every text.
\<close>

definition only_square :: "ustr \<Rightarrow> exn + ustr" where
  "only_square s = (if s = u ''x**2'' then Inr s else Inl KeyboardInterrupt)"

definition refusing :: "ustr \<Rightarrow> exn + ustr" where
  "refusing s = Inl (PyException (u ''refused''))"

definition session :: "input_ev list" where
  "session = [Line (u ''   ''), InputRaises (PyException (u ''EOF when reading a line'')),
              Line (u ''2+2''), Line (u ''limit of x'')]"

section \<open>Facts about the string operations\<close>

lemma replace_Nil: "replace old new [] = (if old = [] then new else [])"
  by (simp add: replace.simps)

lemma replace_char_Cons:
  "replace [c] new (d # s) = (if d = c then new else [d]) @ replace [c] new s"
  by (subst replace.simps) simp

lemma replace_char: "replace [c] new s = concat (map (\<lambda>d. if d = c then new else [d]) s)"
  by (induction s) (simp_all add: replace_Nil replace_char_Cons)

lemma replace_char_absent: "c \<notin> set s \<Longrightarrow> replace [c] new s = s"
  by (induction s) (auto simp: replace_char)

lemma set_replace_char: "set (replace [c] new s) \<subseteq> (set s - {c}) \<union> set new"
  by (auto simp: replace_char split: if_splits)

lemma replace_char_removes: "c \<notin> set new \<Longrightarrow> c \<notin> set (replace [c] new s)"
  using set_replace_char [of c new s] by auto

lemma replace_char_keeps_out:
  "x \<notin> set s \<Longrightarrow> x \<notin> set new \<Longrightarrow> x \<notin> set (replace [c] new s)"
  using set_replace_char [of c new s] by auto

lemma set_strip: "set (strip s) \<subseteq> set s"
  by (auto simp: strip_def dest!: set_dropWhileD)

lemma lstrip_rstrip_fixed:
  assumes "a = [] \<or> \<not> P (hd a)"
  shows "dropWhile P (rev (dropWhile P (rev a))) = rev (dropWhile P (rev a))"
proof (cases "rev (dropWhile P (rev a))")
  case Nil
  show ?thesis unfolding Nil by simp
next
  case (Cons x xs)
  have "a = rev (dropWhile P (rev a)) @ rev (takeWhile P (rev a))"
    by (metis rev_append rev_rev_ident takeWhile_dropWhile_id)
  with Cons have "a = x # xs @ rev (takeWhile P (rev a))" by simp
  then have "hd a = x" "a \<noteq> []" by (metis list.sel(1), metis list.distinct(1))
  with assms have "\<not> P x" by simp
  with Cons show ?thesis by simp
qed

lemma strip_idem: "strip (strip s) = strip s"
proof -
  let ?a = "dropWhile isspace s"
  have "?a = [] \<or> \<not> isspace (hd ?a)"
    by (cases "dropWhile isspace s = []") (simp_all add: hd_dropWhile)
  then have "dropWhile isspace (strip s) = strip s"
    unfolding strip_def by (rule lstrip_rstrip_fixed)
  then show ?thesis
    by (simp add: strip_def)
qed

lemma normalize_no_targets: "x \<in> targets \<Longrightarrow> x \<notin> set (normalize_str s)"
proof -
  assume x: "x \<in> targets"
  let ?r = "replace [8211] (u ''-'') (replace [8212] (u ''-'') (replace [8730] (u ''sqrt'')
     (replace (u '':'') (u ''/'') (replace [247] (u ''/'') (replace [215] (u ''*'')
     (replace (u ''^'') (u ''**'') s))))))"
  have "x \<notin> set ?r"
    using x unfolding targets_def u_def
    by (auto simp: replace_char_removes replace_char_keeps_out)
  moreover have "set (normalize_str s) \<subseteq> set ?r"
    unfolding normalize_str_def Let_def by (rule set_strip)
  ultimately show ?thesis by auto
qed

lemma normalize_str_fixed: "normalize_str (normalize_str s) = normalize_str s"
proof -
  have n: "\<And>c new. c \<in> targets \<Longrightarrow> replace [c] new (normalize_str s) = normalize_str s"
    by (simp add: replace_char_absent normalize_no_targets)
  have "normalize_str (normalize_str s) = strip (normalize_str s)"
    unfolding normalize_str_def [of "normalize_str s"] Let_def u_def
    by (simp add: n targets_def)
  also have "\<dots> = normalize_str s"
    unfolding normalize_str_def Let_def by (rule strip_idem)
  finally show ?thesis .
qed

section \<open>Facts about the handlers and the loop\<close>

lemma sublist_single: "sublist [c] s \<longleftrightarrow> c \<in> set s"
  by (auto simp: sublist_def in_set_conv_decomp)

lemma u_eq_sign: "u ''='' = [61]"
  by (simp add: u_def)

lemma equation_no_vars:
  assumes "split_eq text = Inr (left, right)"
    and "try_parse env left = Inr L" and "try_parse env right = Inr R"
    and "mk_Eq env L R = Inr eq"
    and "free_symbols env L = Inr fl" and "free_symbols env R = Inr fr"
    and "fl \<union> fr = {}"
  shows "handle_equation_try env text =
     bindE (equals env L R) (\<lambda>v.
       Inr (u ''Tenglama: '' @ left @ u '' = '' @ right @ nl @ u ''Natija: '' @ verdict v))"
  using assms by (simp add: handle_equation_try_def bindE_def)


lemma except_Exception_Inr: "except_Exception h (Inr v) = Inr v"
  by (simp add: except_Exception_def)

lemma except_Exception_caught:
  "is_Exception e \<Longrightarrow> except_Exception h (Inl e) = Inr (h e)"
  by (simp add: except_Exception_def)



lemma emit_not_Break: "snd (emit r) \<noteq> Inr Break"
  by (simp add: emit_def split: sum.splits)

lemma route_of_Exit:
  "route_of lower text = Exit \<longleftrightarrow> lower text = u ''exit'' \<or> lower text = u ''quit''"
  by (auto simp: route_of_def Let_def)

lemma body_Break: "snd (body env ev) = Inr Break \<Longrightarrow> is_exit_line env ev"
  by (cases ev)
     (auto simp: body_def is_exit_line_def Let_def route_of_Exit emit_not_Break
           split: route.splits prod.splits if_splits)

lemma iteration_Prompting:
  assumes "\<not> is_exit_line env ev" and "\<not> raises_outside_Exception env ev"
  shows "snd (iteration env ev) = Prompting"
proof (cases "body env ev")
  case (Pair out r)
  show ?thesis
  proof (cases r)
    case (Inl e)
    with Pair assms(2) have "is_Exception e"
      by (simp add: raises_outside_Exception_def)
    then have "e \<noteq> KeyboardInterrupt" by auto
    with Pair Inl \<open>is_Exception e\<close> show ?thesis
      by (simp add: iteration_def)
  next
    case (Inr fl)
    with Pair assms(1) body_Break [of env ev] have "fl = Continue"
      by (cases fl) auto
    with Pair Inr show ?thesis by (simp add: iteration_def)
  qed
qed

lemma run_Prompting:
  "\<forall>ev\<in>set evs. \<not> is_exit_line env ev \<and> \<not> raises_outside_Exception env ev
     \<Longrightarrow> snd (run env evs) = Prompting"
proof (induction evs)
  case Nil
  then show ?case by simp
next
  case (Cons ev evs)
  then have "snd (iteration env ev) = Prompting"
    by (simp add: iteration_Prompting)
  with Cons show ?case
    by (cases "iteration env ev"; cases "run env evs") simp
qed

lemma set_replace: "old \<noteq> [] \<Longrightarrow> set (replace old new s) \<subseteq> set s \<union> set new"
proof (induction old new s rule: replace.induct)
  case (1 old new s)
  show ?case
  proof (cases "s = []")
    case True
    with 1 show ?thesis by (simp add: replace_Nil)
  next
    case False
    show ?thesis
    proof (cases "prefix old s")
      case True
      with 1 False have "set (replace old new (drop (length old) s))
          \<subseteq> set (drop (length old) s) \<union> set new" by simp
      moreover have "set (drop (length old) s) \<subseteq> set s" by (rule set_drop_subset)
      moreover have "replace old new s = new @ replace old new (drop (length old) s)"
        using 1(3) False True by (subst replace.simps) simp
      ultimately show ?thesis by auto
    next
      case np: False
      with 1 False have "set (replace old new (tl s)) \<subseteq> set (tl s) \<union> set new" by simp
      moreover have "set (tl s) \<subseteq> set s" using False by (cases s) auto
      moreover have "hd s \<in> set s" using False by simp
      moreover have "replace old new s = hd s # replace old new (tl s)"
        using 1(3) False np by (subst replace.simps) simp
      ultimately show ?thesis by auto
    qed
  qed
qed

lemma no_upper_replace:
  assumes "old \<noteq> []" and "\<forall>c\<in>set s. \<not> is_ascii_upper c" and "\<forall>c\<in>set new. \<not> is_ascii_upper c"
  shows "\<forall>c\<in>set (replace old new s). \<not> is_ascii_upper c"
  using set_replace [OF assms(1), of new s] assms(2,3) by blast

lemma no_upper_strip:
  "\<forall>c\<in>set s. \<not> is_ascii_upper c \<Longrightarrow> \<forall>c\<in>set (strip s). \<not> is_ascii_upper c"
  using set_strip [of s] by blast

lemma no_upper_take:
  "\<forall>c\<in>set s. \<not> is_ascii_upper c \<Longrightarrow> \<forall>c\<in>set (take n s). \<not> is_ascii_upper c"
  by (meson in_set_takeD)

lemma no_upper_normalize:
  assumes "\<forall>c\<in>set s. \<not> is_ascii_upper c"
  shows "\<forall>c\<in>set (normalize_str s). \<not> is_ascii_upper c"
  unfolding normalize_str_def Let_def
  by (intro no_upper_strip no_upper_replace assms) (simp_all add: u_def is_ascii_upper_def)

lemma no_upper_integral_arg:
  assumes "\<forall>c\<in>set (str_lower env text). \<not> is_ascii_upper c"
  shows "\<forall>c\<in>set (integral_arg env text). \<not> is_ascii_upper c"
proof -
  let ?t = "strip (replace [8747] [] (replace (u ''integrate'') []
              (replace (u ''integral'') [] (str_lower env text))))"
  have t: "\<forall>c\<in>set ?t. \<not> is_ascii_upper c"
    by (intro no_upper_strip no_upper_replace assms) (simp_all add: u_def)
  have "\<forall>c\<in>set (strip (take (length ?t - 2) ?t)). \<not> is_ascii_upper c"
    by (rule no_upper_strip, rule no_upper_take, rule t)
  with t show ?thesis
    by (simp add: integral_arg_def Let_def)
qed

lemma derivative_arg_keyword:
  "\<not> prefix (u ''d/d'') (str_lower env text) \<Longrightarrow>
     derivative_arg env text
       = strip (replace (u ''diff'') [] (replace (u ''derivative'') [] (str_lower env text)))"
  by (simp add: derivative_arg_def Let_def)

lemma no_upper_derivative_arg:
  assumes "\<forall>c\<in>set (str_lower env text). \<not> is_ascii_upper c"
    and "\<not> prefix (u ''d/d'') (str_lower env text)"
  shows "\<forall>c\<in>set (derivative_arg env text). \<not> is_ascii_upper c"
  unfolding derivative_arg_keyword [OF assms(2)]
  by (intro no_upper_strip no_upper_replace assms(1)) (simp_all add: u_def)

lemma route_of_first_match: "route_of lower text = spec_route lower id text"
  unfolding route_of_def spec_route_def first_match_def spec_rules_def Let_def
    startswith_any_def
  by (simp add: sublist_single u_eq_sign)

lemma spec_route_forms:
  "keeps_symbols lower t \<Longrightarrow> spec_route lower lower t = spec_route lower id t"
  unfolding spec_route_def first_match_def spec_rules_def keeps_symbols_def
  by (simp add: sublist_single u_eq_sign)

lemma body_Line:
  "strip raw \<noteq> [] \<Longrightarrow>
   body env (Line raw) =
     (case spec_route (str_lower env) id (strip raw) of
        Exit \<Rightarrow> ([prompt, u ''Dastur tugatildi.''], Inr Break)
      | Help \<Rightarrow> ([prompt, help_text], Inr Continue)
      | Plot \<Rightarrow> (case handle_plot env (strip raw) of
            (out, r) \<Rightarrow> (prompt # out @ fst (emit r), snd (emit r)))
      | Equation \<Rightarrow> (prompt # fst (emit (handle_equation env (strip raw))),
                      snd (emit (handle_equation env (strip raw))))
      | Integral \<Rightarrow> (prompt # fst (emit (handle_integral env (strip raw))),
                      snd (emit (handle_integral env (strip raw))))
      | Derivative \<Rightarrow> (prompt # fst (emit (handle_derivative env (strip raw))),
                        snd (emit (handle_derivative env (strip raw))))
      | Limit \<Rightarrow> (prompt # fst (emit (handle_limit env (strip raw))),
                   snd (emit (handle_limit env (strip raw))))
      | Other \<Rightarrow> (prompt # fst (emit (handle_other env (strip raw))),
                   snd (emit (handle_other env (strip raw)))))"
  by (simp add: body_def Let_def route_of_first_match)

lemma parse_update_arg [simp]:
  "integral_arg (env\<lparr>parse_expr := p\<rparr>) text = integral_arg env text"
  "derivative_arg (env\<lparr>parse_expr := p\<rparr>) text = derivative_arg env text"
  by (simp_all add: integral_arg_def derivative_arg_def)

lemma parse_update_pick_var [simp]:
  "pick_var (env\<lparr>parse_expr := p\<rparr>) f = pick_var env f"
  by (simp add: pick_var_def cong: if_cong)

lemma integral_arg_explicit:
  "integral_arg env text =
     (let t = strip (replace [8747] [] (replace (u ''integrate'') []
                (replace (u ''integral'') [] (str_lower env text))))
      in if suffix (u ''dx'') t then strip (take (length t - 2) t) else t)"
  by (simp add: integral_arg_def)

lemma handle_integral_parse:
  "handle_integral (env\<lparr>parse_expr := p\<rparr>) text =
     except_Exception (\<lambda>e. u ''Integral xatosi: '' @ str_exn e)
       (bindE (p (normalize_str (integral_arg env text))) (\<lambda>f.
        bindE (pick_var env f) (\<lambda>var.
        bindE (integrate env f var) (\<lambda>res.
        bindE (str_of env f) (\<lambda>sf.
        bindE (str_of env var) (\<lambda>sv.
        bindE (str_of env res) (\<lambda>sr.
          Inr ([8747] @ u '' ('' @ sf @ u '') d'' @ sv @ u '' = '' @ sr @ u '' + C''))))))))"
  by (simp add: handle_integral_def handle_integral_try_def try_parse_def)

lemma handle_derivative_parse:
  "handle_derivative (env\<lparr>parse_expr := p\<rparr>) text =
     except_Exception (\<lambda>e. u ''Hosila xatosi: '' @ str_exn e)
       (bindE (p (normalize_str (derivative_arg env text))) (\<lambda>f.
        bindE (pick_var env f) (\<lambda>var.
        bindE (diff env f var) (\<lambda>res.
        bindE (str_of env var) (\<lambda>sv.
        bindE (str_of env f) (\<lambda>sf.
        bindE (str_of env res) (\<lambda>sr.
          Inr (u ''d/d'' @ sv @ u '' ('' @ sf @ u '') = '' @ sr))))))))"
  by (simp add: handle_derivative_def handle_derivative_try_def try_parse_def)

section \<open>Claims\<close>

text \<open>
  C1. For every stripped non-empty line the dispatcher takes exactly one route, the one
  of the first rule of the specification that matches: a line equal to \<open>exit\<close> or \<open>quit\<close>
  ends the loop, whatever readings follow; \<open>help\<close> prints the usage text, which no
  call of the backend enters; a line starting with \<open>plot \<close> gets what the plot handler
  prints and returns; a line with \<open>=\<close> that does not start with \<open>limit\<close>, \<open>int\<close>, \<open>diff\<close>
  or \<open>plot\<close> gets the answer of the equation handler; then the integral, derivative and
  limit handlers by their tests, and the generic handler for anything else. Whichever
  form of the line the tests for \<open>=\<close> and the integral sign read, the route is the
  same, as lowercasing leaves these two characters in place.
\<close>

theorem dispatch_by_first_match:
  assumes "strip raw \<noteq> []"
  shows "(spec_route (str_lower env) id (strip raw) = Exit \<longrightarrow>
            body env (Line raw) = ([prompt, u ''Dastur tugatildi.''], Inr Break)
            \<and> main env (Line raw # evs)
                = ([u ''=== Pydroid Matematik Yechuvchi ==='',
                    u ''Buyruqni kiritib Enter bosing (Yordam uchun: help)'',
                    prompt, u ''Dastur tugatildi.''], Terminated))
       \<and> (spec_route (str_lower env) id (strip raw) = Help \<longrightarrow>
            body env (Line raw) = ([prompt, help_text], Inr Continue)
            \<and> main env (Line raw # evs)
                = (u ''=== Pydroid Matematik Yechuvchi ==='' #
                   u ''Buyruqni kiritib Enter bosing (Yordam uchun: help)'' #
                   prompt # help_text # fst (run env evs), snd (run env evs)))
       \<and> (spec_route (str_lower env) id (strip raw) = Plot \<longrightarrow>
            body env (Line raw)
              = (prompt # fst (handle_plot env (strip raw))
                   @ fst (emit (snd (handle_plot env (strip raw)))),
                 snd (emit (snd (handle_plot env (strip raw))))))
       \<and> (spec_route (str_lower env) id (strip raw) = Equation \<longrightarrow>
            body env (Line raw)
              = (prompt # fst (emit (handle_equation env (strip raw))),
                 snd (emit (handle_equation env (strip raw)))))
       \<and> (spec_route (str_lower env) id (strip raw) = Integral \<longrightarrow>
            body env (Line raw)
              = (prompt # fst (emit (handle_integral env (strip raw))),
                 snd (emit (handle_integral env (strip raw)))))
       \<and> (spec_route (str_lower env) id (strip raw) = Derivative \<longrightarrow>
            body env (Line raw)
              = (prompt # fst (emit (handle_derivative env (strip raw))),
                 snd (emit (handle_derivative env (strip raw)))))
       \<and> (spec_route (str_lower env) id (strip raw) = Limit \<longrightarrow>
            body env (Line raw)
              = (prompt # fst (emit (handle_limit env (strip raw))),
                 snd (emit (handle_limit env (strip raw)))))
       \<and> (spec_route (str_lower env) id (strip raw) = Other \<longrightarrow>
            body env (Line raw)
              = (prompt # fst (emit (handle_other env (strip raw))),
                 snd (emit (handle_other env (strip raw)))))
       \<and> (keeps_symbols (str_lower env) (strip raw) \<longrightarrow>
            spec_route (str_lower env) (str_lower env) (strip raw)
              = spec_route (str_lower env) id (strip raw))"
  using assms
  by (auto simp: body_Line main_def iteration_def spec_route_forms split: prod.splits)

theorem dispatch_by_first_match_witness:
  "main toy_env [Line (u '' QUIT ''), Line (u ''2+2'')]
     = ([u ''=== Pydroid Matematik Yechuvchi ==='',
         u ''Buyruqni kiritib Enter bosing (Yordam uchun: help)'',
         prompt, u ''Dastur tugatildi.''], Terminated)
   \<and> body toy_env (Line (u ''Limit of x = 1''))
     = (prompt # fst (emit (handle_limit toy_env (strip (u ''Limit of x = 1'')))),
        snd (emit (handle_limit toy_env (strip (u ''Limit of x = 1'')))))
   \<and> spec_route (str_lower toy_env) (str_lower toy_env) (strip (u ''Limit of x = 1'')) = Limit"
proof -
  have a: "strip (u '' QUIT '') \<noteq> []" by code_simp
  have b: "spec_route (str_lower toy_env) id (strip (u '' QUIT '')) = Exit" by code_simp
  have c: "strip (u ''Limit of x = 1'') \<noteq> []" by code_simp
  have d: "spec_route (str_lower toy_env) id (strip (u ''Limit of x = 1'')) = Limit"
    by code_simp
  have e: "keeps_symbols (str_lower toy_env) (strip (u ''Limit of x = 1''))" by code_simp
  from dispatch_by_first_match [OF a, of toy_env "[Line (u ''2+2'')]"] b
    dispatch_by_first_match [OF c, of toy_env "[]"] d e
  show ?thesis by simp
qed




text \<open>
  C3. As stated, whenever both sides parse and have no free symbols, the verdict is
  \<open>To'g'ri\<close> exactly when the constants are mathematically equal and \<open>Noto'g'ri\<close>
  exactly when they are not. The verdict is the answer of \<open>L.equals(R)\<close>, not equality
  itself. When the comparison raises there is no verdict: both sides of \<open>2+2=4\<close> parse,
  neither has a free symbol, and the handler returns the error text. When the comparison
  is inconclusive the verdict is \<open>Noto'g'ri\<close> even for \<open>4=4\<close>, whose two sides parse to one
  and the same expression.
\<close>

theorem verdict_is_not_equality:
  "split_eq (u ''2+2=4'') = Inr (u ''2+2'', u ''4'')
   \<and> try_parse failing_equals_env (u ''2+2'') = Inr (u ''2+2'')
   \<and> try_parse failing_equals_env (u ''4'') = Inr (u ''4'')
   \<and> free_symbols failing_equals_env (u ''2+2'') = Inr {}
   \<and> free_symbols failing_equals_env (u ''4'') = Inr {}
   \<and> handle_equation failing_equals_env (u ''2+2=4'')
       = Inr (u ''Tenglamada xato: cannot compare'')
   \<and> split_eq (u ''4=4'') = Inr (u ''4'', u ''4'')
   \<and> try_parse inconclusive_env (u ''4'') = Inr (u ''4'')
   \<and> free_symbols inconclusive_env (u ''4'') = Inr {}
   \<and> equals inconclusive_env (u ''4'') (u ''4'') = Inr None
   \<and> handle_equation inconclusive_env (u ''4=4'')
       = Inr (u ''Tenglama: 4 = 4'' @ nl @ u ''Natija: Noto'g'ri'')"
  by code_simp

text \<open>
  C3, amended. Let \<open>meq\<close> say which sympy objects are mathematically equal. When the
  line splits at its first \<open>=\<close>, both sides parse, \<open>Eq(L, R)\<close> is built, neither side
  has a free symbol, and \<open>L.equals(R)\<close> returns the definite answer that is right
  (\<open>True\<close> when the two constants are mathematically equal, \<open>False\<close> when they are not),
  the verdict is \<open>To'g'ri\<close> exactly when the two parsed constants are mathematically
  equal, and \<open>Noto'g'ri\<close> exactly when they are not.
\<close>

theorem equation_verdict:
  assumes "split_eq text = Inr (left, right)"
    and "try_parse env left = Inr L" and "try_parse env right = Inr R"
    and "mk_Eq env L R = Inr eq"
    and "free_symbols env L = Inr fl" and "free_symbols env R = Inr fr"
    and "fl \<union> fr = {}"
    and "equals env L R = Inr (Some (meq L R))"
  shows "handle_equation env text =
           Inr (u ''Tenglama: '' @ left @ u '' = '' @ right @ nl @ u ''Natija: ''
                @ (if meq L R then u ''To'g'ri'' else u ''Noto'g'ri''))"
  using assms(8)
  by (simp add: handle_equation_def equation_no_vars [OF assms(1-7)] bindE_def
      except_Exception_def verdict_def)

theorem equation_verdict_witness:
  "handle_equation toy5 (u ''2+2=4'') =
     Inr (u ''Tenglama: '' @ u ''2+2'' @ u '' = '' @ u ''4'' @ nl @ u ''Natija: ''
          @ (if toy_meq (u ''2+2'') (u ''4'') then u ''To'g'ri'' else u ''Noto'g'ri''))
   \<and> handle_equation toy5 (u ''2+2=5'') =
     Inr (u ''Tenglama: '' @ u ''2+2'' @ u '' = '' @ u ''5'' @ nl @ u ''Natija: ''
          @ (if toy_meq (u ''2+2'') (u ''5'') then u ''To'g'ri'' else u ''Noto'g'ri''))
   \<and> toy_meq (u ''2+2'') (u ''4'') \<and> \<not> toy_meq (u ''2+2'') (u ''5'')"
proof -
  have a: "handle_equation toy5 (u ''2+2=4'') =
     Inr (u ''Tenglama: '' @ u ''2+2'' @ u '' = '' @ u ''4'' @ nl @ u ''Natija: ''
          @ (if toy_meq (u ''2+2'') (u ''4'') then u ''To'g'ri'' else u ''Noto'g'ri''))"
    by (rule equation_verdict [where L = "u ''2+2''" and R = "u ''4''" and fl = "{}"
          and fr = "{}" and eq = "u ''Eq(2+2, 4)''"]) code_simp+
  have b: "handle_equation toy5 (u ''2+2=5'') =
     Inr (u ''Tenglama: '' @ u ''2+2'' @ u '' = '' @ u ''5'' @ nl @ u ''Natija: ''
          @ (if toy_meq (u ''2+2'') (u ''5'') then u ''To'g'ri'' else u ''Noto'g'ri''))"
    by (rule equation_verdict [where L = "u ''2+2''" and R = "u ''5''" and fl = "{}"
          and fr = "{}" and eq = "u ''Eq(2+2, 5)''"]) code_simp+
  have c: "toy_meq (u ''2+2'') (u ''4'') \<and> \<not> toy_meq (u ''2+2'') (u ''5'')"
    by code_simp
  from a b c show ?thesis by blast
qed

text \<open>
  C4. As stated, every input of the generic route that does not begin with \<open>factor\<close>,
  \<open>expand\<close> or \<open>simplify\<close> gets a report of the parsed form that ends with the simplified
  form. The text \<open>2+\<close> does not parse: the output is the error text.
\<close>

theorem unparsable_generic_input:
  "\<not> startswith_any [u ''factor'', u ''expand'', u ''simplify'']
        (str_lower toy_env (normalize_str (u ''2+'')))
   \<and> handle_other toy_env (u ''2+'') = Inr (u ''Xato: invalid syntax'')"
  by code_simp

text \<open>
  C4, amended. For every input whose normalized, lowercased text does not begin with
  \<open>factor\<close>, \<open>expand\<close> or \<open>simplify\<close>, and whose normalized text parses, prints and
  simplifies without an exception, the output is the line of the parsed form, then the
  line of the numeric value exactly when \<open>evalf\<close> and its formatting succeed, and then the
  simplified form; when the numeric evaluation raises, its line is left out and nothing
  else changes.
\<close>

theorem generic_output:
  assumes "\<not> startswith_any [u ''factor'', u ''expand'', u ''simplify'']
               (str_lower env (normalize_str t))"
    and "parse_expr env (normalize_str t) = Inr f" and "str_of env f = Inr sf"
    and "simplify env f = Inr g" and "str_of env g = Inr sg"
  shows "(\<forall>n sn. evalf env f = Inr n \<and> str_of env n = Inr sn \<longrightarrow>
            handle_other env t =
              Inr (u ''Ifoda: '' @ sf @ nl @ u ''Taqribiy qiymat: '' @ sn @ nl
                   @ u ''Soddalashtirilgan: '' @ sg))
       \<and> ((\<exists>e. evalf env f = Inl e) \<or> (\<exists>n e. evalf env f = Inr n \<and> str_of env n = Inl e) \<longrightarrow>
            handle_other env t = Inr (u ''Ifoda: '' @ sf @ nl @ u ''Soddalashtirilgan: '' @ sg))"
  using assms
  by (auto simp: handle_other_def handle_other_try_def Let_def try_parse_def
      normalize_str_fixed bindE_def except_Exception_def numeric_line_def)

theorem generic_output_witness:
  "handle_other toy_env (u ''2+2'') =
     Inr (u ''Ifoda: '' @ u ''2+2'' @ nl @ u ''Taqribiy qiymat: '' @ u ''4.00000000000000'' @ nl
          @ u ''Soddalashtirilgan: '' @ u ''4'')
   \<and> handle_other toy_env (u ''pi'') =
     Inr (u ''Ifoda: '' @ u ''pi'' @ nl @ u ''Soddalashtirilgan: '' @ u ''pi'')"
proof -
  have a: "\<not> startswith_any [u ''factor'', u ''expand'', u ''simplify'']
               (str_lower toy_env (normalize_str (u ''2+2'')))"
    by code_simp
  have b: "parse_expr toy_env (normalize_str (u ''2+2'')) = Inr (u ''2+2'')" by code_simp
  have c: "str_of toy_env (u ''2+2'') = Inr (u ''2+2'')" by code_simp
  have d: "simplify toy_env (u ''2+2'') = Inr (u ''4'')" by code_simp
  have e: "str_of toy_env (u ''4'') = Inr (u ''4'')" by code_simp
  have f: "evalf toy_env (u ''2+2'') = Inr (u ''4.00000000000000'')
       \<and> str_of toy_env (u ''4.00000000000000'') = Inr (u ''4.00000000000000'')"
    by code_simp
  have a': "\<not> startswith_any [u ''factor'', u ''expand'', u ''simplify'']
               (str_lower toy_env (normalize_str (u ''pi'')))"
    by code_simp
  have b': "parse_expr toy_env (normalize_str (u ''pi'')) = Inr (u ''pi'')" by code_simp
  have c': "str_of toy_env (u ''pi'') = Inr (u ''pi'')" by code_simp
  have d': "simplify toy_env (u ''pi'') = Inr (u ''pi'')" by code_simp
  have f': "evalf toy_env (u ''pi'') = Inl (PyException (u ''cannot evaluate''))" by code_simp
  from generic_output [OF a b c d e] f generic_output [OF a' b' c' d' c'] f'
  show ?thesis by blast
qed

text \<open>
  C5. For every string \<open>s\<close>, normalizing the normalized text changes nothing:
  \<open>normalize(normalize(s)) == normalize(s)\<close>. After the first pass none of the
  substituted characters is left and the text is stripped, so the second pass finds
  nothing to rewrite.
\<close>

theorem normalize_idempotent: "normalize_str (normalize_str s) = normalize_str s"
proof -
  have "\<forall>c new. c \<in> targets \<longrightarrow> replace [c] new (normalize_str s) = normalize_str s"
    by (simp add: replace_char_absent normalize_no_targets)
  then have "normalize_str (normalize_str s) = strip (normalize_str s)"
    unfolding normalize_str_def [of "normalize_str s"] Let_def u_def
    by (simp add: targets_def)
  also have "\<dots> = normalize_str s"
    unfolding normalize_str_def Let_def by (rule strip_idem)
  finally show ?thesis .
qed

text \<open>
  C6. As stated, whenever the text left after the keywords and a trailing \<open>dx\<close> are
  stripped parses, the result has the form of the integral sign, the expression, the
  variable, the antiderivative and \<open>+ C\<close>. The text \<open>x**2\<close> parses, \<open>integrate\<close> raises,
  and the result is the error text.
\<close>

theorem integrate_raises_after_parse:
  "parse_expr failing_integrate_env
       (normalize_str (integral_arg failing_integrate_env (u ''integral x^2 dx'')))
     = Inr (u ''x**2'')
   \<and> handle_integral failing_integrate_env (u ''integral x^2 dx'')
     = Inr (u ''Integral xatosi: integration failed'')"
  by code_simp


text \<open>
  C6, amended. When the text left after stripping parses, its free symbols are read,
  \<open>integrate\<close> returns and the three objects print, the result is the integral sign,
  \<open> (expr) d<var> = <result> + C\<close>, where the variable is the first free symbol of the
  parsed expression, or \<open>x\<close> when it has none.
\<close>

theorem integral_format:
  assumes "parse_expr env (normalize_str (integral_arg env text)) = Inr f"
    and "free_symbols env f = Inr fs"
    and "var = (if fs \<noteq> {} then first_of env fs else sym_x env)"
    and "integrate env f var = Inr res"
    and "str_of env f = Inr sf" and "str_of env var = Inr sv" and "str_of env res = Inr sr"
  shows "handle_integral env text =
           Inr ([8747] @ u '' ('' @ sf @ u '') d'' @ sv @ u '' = '' @ sr @ u '' + C'')"
  using assms
  by (simp add: handle_integral_def handle_integral_try_def try_parse_def pick_var_def
      bindE_def except_Exception_def)

theorem integral_format_witness:
  "handle_integral toy_env (u ''integral x^2 dx'') =
     Inr ([8747] @ u '' ('' @ u ''x**2'' @ u '') d'' @ u ''x'' @ u '' = '' @ u ''x**3/3''
          @ u '' + C'')"
  by (rule integral_format [where f = "u ''x**2''" and fs = "{u ''x''}" and var = "u ''x''"
        and res = "u ''x**3/3''"]) code_simp+

text \<open>
  C7. On the limit route every failure gives the one fixed hint: whether the line does
  not parse, \<open>doit\<close> raises or the result does not print, and whatever the exception is,
  the handler returns \<open>limit_hint\<close>, which holds nothing of the exception.
\<close>

theorem limit_failure_gives_hint:
  assumes "try_parse env text = Inl e
     \<or> (\<exists>obj. try_parse env text = Inr obj
          \<and> (doit env obj = Inl e
              \<or> (\<exists>res. doit env obj = Inr res \<and> str_of env res = Inl e)))"
  shows "handle_limit env text = Inr limit_hint"
  using assms
  by (auto simp: handle_limit_def handle_limit_try_def except_all_def bindE_def)

theorem limit_failure_gives_hint_witness:
  "handle_limit toy_env (u ''limit of x'') = Inr limit_hint
   \<and> handle_limit interrupted_doit_env (u ''limit(sin(x)/x, x, 0)'') = Inr limit_hint"
proof -
  have a: "try_parse toy_env (u ''limit of x'') = Inl (PyException (u ''invalid syntax''))"
    by code_simp
  have b: "try_parse interrupted_doit_env (u ''limit(sin(x)/x, x, 0)'')
             = Inr (u ''limit(sin(x)/x, x, 0)'')
         \<and> doit interrupted_doit_env (u ''limit(sin(x)/x, x, 0)'') = Inl KeyboardInterrupt"
    by code_simp
  from a have "handle_limit toy_env (u ''limit of x'') = Inr limit_hint"
    by (intro limit_failure_gives_hint disjI1)
  moreover from b
  have "handle_limit interrupted_doit_env (u ''limit(sin(x)/x, x, 0)'') = Inr limit_hint"
    by (intro limit_failure_gives_hint [where e = KeyboardInterrupt]) blast
  ultimately show ?thesis by simp
qed

text \<open>
  C8. As stated, the loop never ends on a line other than \<open>exit\<close> or \<open>quit\<close> or on a user
  interrupt. The loop catches \<open>KeyboardInterrupt\<close> and \<open>Exception\<close> only: when the parser
  raises \<open>SystemExit\<close> on the line \<open>2+2\<close>, the exception leaves \<open>main\<close>.
\<close>

theorem system_exit_ends_loop:
  "\<not> is_exit_line exiting_env (Line (u ''2+2''))
   \<and> run exiting_env [Line (u ''2+2'')] = ([prompt], Propagated (SystemExiting []))"
  by code_simp

text \<open>
  C8, amended. As long as no reading is an \<open>exit\<close> or \<open>quit\<close> line and no exception
  outside \<open>Exception\<close> (a user interrupt, \<open>SystemExit\<close>) comes out of the body, the loop is
  prompting again after any sequence of readings; an empty line prints nothing but the
  prompt, and an instance of \<open>Exception\<close> that reaches the loop is reported as
  \<open>Dastur xatosi: ...\<close> and the loop prompts again.
\<close>

theorem loop_keeps_prompting:
  "((\<forall>ev\<in>set evs. \<not> is_exit_line env ev \<and> \<not> raises_outside_Exception env ev)
      \<longrightarrow> snd (run env evs) = Prompting)
   \<and> (strip raw = [] \<longrightarrow> iteration env (Line raw) = ([prompt], Prompting))
   \<and> (\<forall>e. snd (body env ev) = Inl e \<and> is_Exception e \<longrightarrow>
         iteration env ev
           = (fst (body env ev) @ [u ''Dastur xatosi: '' @ str_exn e], Prompting))"
proof (intro conjI impI allI)
  assume "\<forall>ev\<in>set evs. \<not> is_exit_line env ev \<and> \<not> raises_outside_Exception env ev"
  then show "snd (run env evs) = Prompting" by (rule run_Prompting)
next
  assume "strip raw = []"
  then show "iteration env (Line raw) = ([prompt], Prompting)"
    by (simp add: iteration_def body_def)
next
  fix e
  assume a: "snd (body env ev) = Inl e \<and> is_Exception e"
  then have "e \<noteq> KeyboardInterrupt" by auto
  with a show "iteration env ev
      = (fst (body env ev) @ [u ''Dastur xatosi: '' @ str_exn e], Prompting)"
    by (cases "body env ev") (simp add: iteration_def)
qed

theorem loop_keeps_prompting_witness:
  "snd (run toy_env session) = Prompting
   \<and> iteration toy_env (Line (u ''   '')) = ([prompt], Prompting)
   \<and> iteration toy_env (InputRaises (PyException (u ''EOF when reading a line'')))
       = ([prompt] @ [u ''Dastur xatosi: '' @ u ''EOF when reading a line''], Prompting)"
proof -
  have a: "\<forall>ev\<in>set session.
      \<not> is_exit_line toy_env ev \<and> \<not> raises_outside_Exception toy_env ev"
    by code_simp
  have b: "strip (u ''   '') = []" by code_simp
  have c: "snd (body toy_env (InputRaises (PyException (u ''EOF when reading a line''))))
             = Inl (PyException (u ''EOF when reading a line''))
         \<and> is_Exception (PyException (u ''EOF when reading a line''))"
    by code_simp
  have d: "fst (body toy_env (InputRaises (PyException (u ''EOF when reading a line''))))
             = [prompt]"
    by code_simp
  from loop_keeps_prompting [of session toy_env "u ''   ''"
        "InputRaises (PyException (u ''EOF when reading a line''))"] a b c d
  show ?thesis by (metis str_exn.simps(1))
qed

text \<open>
  C9. The integral handler parses one text: the lowercase form of the whole line, from
  which \<open>integral\<close>, \<open>integrate\<close>, the integral sign and a trailing \<open>dx\<close> are stripped,
  normalized. Its answer depends on the parser at that text only, and a failure of the
  parser at that text is the handler's error. The derivative handler does the same with
  the lowercase line stripped of \<open>derivative\<close> and \<open>diff\<close>, when that line does not
  start with \<open>d/d\<close>. When \<open>lower()\<close> leaves no capital ASCII letter, the text parsed has
  none: \<open>X\<close> is parsed as \<open>x\<close>.
\<close>

theorem lowercased_before_parsing:
  "(let low = str_lower env text;
        t = strip (replace [8747] [] (replace (u ''integrate'') []
              (replace (u ''integral'') [] low)));
        int_arg = normalize_str (if suffix (u ''dx'') t then strip (take (length t - 2) t) else t);
        der_arg = normalize_str (strip (replace (u ''diff'') []
                    (replace (u ''derivative'') [] low)))
    in (\<forall>p q. p int_arg = q int_arg \<longrightarrow>
          handle_integral (env\<lparr>parse_expr := p\<rparr>) text
            = handle_integral (env\<lparr>parse_expr := q\<rparr>) text)
     \<and> (\<forall>p e. p int_arg = Inl e \<and> is_Exception e \<longrightarrow>
          handle_integral (env\<lparr>parse_expr := p\<rparr>) text
            = Inr (u ''Integral xatosi: '' @ str_exn e))
     \<and> (\<not> prefix (u ''d/d'') low \<longrightarrow>
          (\<forall>p q. p der_arg = q der_arg \<longrightarrow>
             handle_derivative (env\<lparr>parse_expr := p\<rparr>) text
               = handle_derivative (env\<lparr>parse_expr := q\<rparr>) text)
          \<and> (\<forall>p e. p der_arg = Inl e \<and> is_Exception e \<longrightarrow>
             handle_derivative (env\<lparr>parse_expr := p\<rparr>) text
               = Inr (u ''Hosila xatosi: '' @ str_exn e)))
     \<and> ((\<forall>c\<in>set low. \<not> is_ascii_upper c) \<longrightarrow>
          (\<forall>c\<in>set int_arg. \<not> is_ascii_upper c)
          \<and> (\<not> prefix (u ''d/d'') low \<longrightarrow> (\<forall>c\<in>set der_arg. \<not> is_ascii_upper c))))"
proof -
  have i: "normalize_str (integral_arg env text) =
      normalize_str (let t = strip (replace [8747] [] (replace (u ''integrate'') []
                (replace (u ''integral'') [] (str_lower env text))))
      in if suffix (u ''dx'') t then strip (take (length t - 2) t) else t)"
    by (simp only: integral_arg_explicit)
  have d: "\<not> prefix (u ''d/d'') (str_lower env text) \<Longrightarrow>
      normalize_str (derivative_arg env text) =
      normalize_str (strip (replace (u ''diff'') []
                    (replace (u ''derivative'') [] (str_lower env text))))"
    by (simp add: derivative_arg_keyword)
  have ui: "(\<forall>c\<in>set (str_lower env text). \<not> is_ascii_upper c) \<Longrightarrow>
      (\<forall>c\<in>set (normalize_str (integral_arg env text)). \<not> is_ascii_upper c)"
    by (intro no_upper_normalize no_upper_integral_arg)
  have ud: "(\<forall>c\<in>set (str_lower env text). \<not> is_ascii_upper c) \<Longrightarrow>
      \<not> prefix (u ''d/d'') (str_lower env text) \<Longrightarrow>
      (\<forall>c\<in>set (normalize_str (derivative_arg env text)). \<not> is_ascii_upper c)"
    by (intro no_upper_normalize no_upper_derivative_arg)
  show ?thesis
    unfolding Let_def
    using ui ud
    by (auto simp: handle_integral_parse handle_derivative_parse i [unfolded Let_def, symmetric]
        d [symmetric] bindE_def except_Exception_def)
qed

theorem lowercased_before_parsing_witness:
  "handle_integral (toy_env\<lparr>parse_expr := toy_parse\<rparr>) (u ''INTEGRAL X^2 DX'')
     = handle_integral (toy_env\<lparr>parse_expr := only_square\<rparr>) (u ''INTEGRAL X^2 DX'')
   \<and> handle_integral (toy_env\<lparr>parse_expr := refusing\<rparr>) (u ''INTEGRAL X^2 DX'')
     = Inr (u ''Integral xatosi: '' @ str_exn (PyException (u ''refused'')))
   \<and> handle_derivative (toy_env\<lparr>parse_expr := toy_parse\<rparr>) (u ''DIFF X^2'')
     = handle_derivative (toy_env\<lparr>parse_expr := only_square\<rparr>) (u ''DIFF X^2'')
   \<and> handle_derivative (toy_env\<lparr>parse_expr := refusing\<rparr>) (u ''DIFF X^2'')
     = Inr (u ''Hosila xatosi: '' @ str_exn (PyException (u ''refused'')))
   \<and> handle_integral (toy_env\<lparr>parse_expr := only_square\<rparr>) (u ''INTEGRAL X^2 DX'')
     = Inr ([8747] @ u '' (x**2) dx = x**3/3 + C'')
   \<and> handle_derivative (toy_env\<lparr>parse_expr := only_square\<rparr>) (u ''DIFF X^2'')
     = Inr (u ''d/dx (x**2) = 2*x'')"
proof -
  let ?li = "str_lower toy_env (u ''INTEGRAL X^2 DX'')"
  let ?t = "strip (replace [8747] [] (replace (u ''integrate'') []
              (replace (u ''integral'') [] ?li)))"
  let ?ia = "normalize_str (if suffix (u ''dx'') ?t then strip (take (length ?t - 2) ?t) else ?t)"
  let ?ld = "str_lower toy_env (u ''DIFF X^2'')"
  let ?da = "normalize_str (strip (replace (u ''diff'') [] (replace (u ''derivative'') [] ?ld)))"
  have ia: "?ia = u ''x**2''" by code_simp
  have da: "?da = u ''x**2''" by code_simp
  have nd: "\<not> prefix (u ''d/d'') ?ld" by code_simp
  have pq: "toy_parse (u ''x**2'') = only_square (u ''x**2'')" by code_simp
  have r: "refusing (u ''x**2'') = Inl (PyException (u ''refused''))
      \<and> is_Exception (PyException (u ''refused''))"
    by (simp add: refusing_def)
  have v: "handle_integral (toy_env\<lparr>parse_expr := only_square\<rparr>) (u ''INTEGRAL X^2 DX'')
     = Inr ([8747] @ u '' (x**2) dx = x**3/3 + C'')
   \<and> handle_derivative (toy_env\<lparr>parse_expr := only_square\<rparr>) (u ''DIFF X^2'')
     = Inr (u ''d/dx (x**2) = 2*x'')"
    by code_simp
  note i = lowercased_before_parsing [of toy_env "u ''INTEGRAL X^2 DX''", unfolded Let_def ia]
  note d = lowercased_before_parsing [of toy_env "u ''DIFF X^2''", unfolded Let_def da]
  note i1 = i [THEN conjunct1]
  note i2 = i [THEN conjunct2, THEN conjunct1]
  note dd = d [THEN conjunct2, THEN conjunct2, THEN conjunct1, THEN mp, OF nd]
  note d1 = dd [THEN conjunct1]
  note d2 = dd [THEN conjunct2]
  from i1 [rule_format, of toy_parse only_square, OF pq]
    i2 [rule_format, of refusing "PyException (u ''refused'')", OF r]
    d1 [rule_format, of toy_parse only_square, OF pq]
    d2 [rule_format, of refusing "PyException (u ''refused'')", OF r] v
  show ?thesis by blast
qed

text \<open>
  C10. In the case without variables, an inconclusive comparison (\<open>None\<close>) is reported
  as \<open>Noto'g'ri\<close>, and the verdict \<open>To'g'ri\<close> is returned only when \<open>L.equals(R)\<close> answered
  \<open>True\<close>.
\<close>

theorem inconclusive_is_false:
  assumes "split_eq text = Inr (left, right)"
    and "try_parse env left = Inr L" and "try_parse env right = Inr R"
    and "mk_Eq env L R = Inr eq"
    and "free_symbols env L = Inr fl" and "free_symbols env R = Inr fr"
    and "fl \<union> fr = {}"
  shows "(equals env L R = Inr None \<longrightarrow>
           handle_equation env text =
             Inr (u ''Tenglama: '' @ left @ u '' = '' @ right @ nl @ u ''Natija: Noto'g'ri''))
       \<and> (handle_equation env text =
             Inr (u ''Tenglama: '' @ left @ u '' = '' @ right @ nl @ u ''Natija: To'g'ri'')
           \<longrightarrow> equals env L R = Inr (Some True))"
proof -
  note body = equation_no_vars [OF assms]
  show ?thesis
  proof (cases "equals env L R")
    case (Inl e)
    then show ?thesis
      by (simp add: handle_equation_def body bindE_def except_Exception_def u_def)
  next
    case (Inr v)
    then show ?thesis
      by (cases v) (auto simp: handle_equation_def body bindE_def except_Exception_def
          verdict_def u_def)
  qed
qed


theorem inconclusive_is_false_witness:
  "equals toy_env (u ''pi'') (u ''4'') = Inr None
   \<and> handle_equation toy_env (u ''pi=4'')
       = Inr (u ''Tenglama: '' @ u ''pi'' @ u '' = '' @ u ''4'' @ nl @ u ''Natija: Noto'g'ri'')
   \<and> handle_equation toy_env (u ''2+2=4'')
       = Inr (u ''Tenglama: '' @ u ''2+2'' @ u '' = '' @ u ''4'' @ nl @ u ''Natija: To'g'ri'')
   \<and> equals toy_env (u ''2+2'') (u ''4'') = Inr (Some True)"
proof -
  have a: "equals toy_env (u ''pi'') (u ''4'') = Inr None"
    by code_simp
  have b: "handle_equation toy_env (u ''2+2=4'')
       = Inr (u ''Tenglama: '' @ u ''2+2'' @ u '' = '' @ u ''4'' @ nl @ u ''Natija: To'g'ri'')"
    by code_simp
  have "(equals toy_env (u ''pi'') (u ''4'') = Inr None \<longrightarrow>
           handle_equation toy_env (u ''pi=4'') =
             Inr (u ''Tenglama: '' @ u ''pi'' @ u '' = '' @ u ''4'' @ nl
                  @ u ''Natija: Noto'g'ri''))
       \<and> (handle_equation toy_env (u ''pi=4'') =
             Inr (u ''Tenglama: '' @ u ''pi'' @ u '' = '' @ u ''4'' @ nl @ u ''Natija: To'g'ri'')
           \<longrightarrow> equals toy_env (u ''pi'') (u ''4'') = Inr (Some True))"
    by (rule inconclusive_is_false [where fl = "{}" and fr = "{}"
          and eq = "u ''Eq(pi, 4)''"]) code_simp+
  moreover
  have "(equals toy_env (u ''2+2'') (u ''4'') = Inr None \<longrightarrow>
           handle_equation toy_env (u ''2+2=4'') =
             Inr (u ''Tenglama: '' @ u ''2+2'' @ u '' = '' @ u ''4'' @ nl
                  @ u ''Natija: Noto'g'ri''))
       \<and> (handle_equation toy_env (u ''2+2=4'') =
             Inr (u ''Tenglama: '' @ u ''2+2'' @ u '' = '' @ u ''4'' @ nl @ u ''Natija: To'g'ri'')
           \<longrightarrow> equals toy_env (u ''2+2'') (u ''4'') = Inr (Some True))"
    by (rule inconclusive_is_false [where fl = "{}" and fr = "{}"
          and eq = "u ''Eq(2+2, 4)''"]) code_simp+
  ultimately show ?thesis using a b by blast
qed

end
